theory Spec2Isabelle
  imports Main "HOL-Library.AList"
begin

section \<open>JavaScript values\<close>

text \<open>
  The library (\<^verbatim>\<open>validation.js\<close>, \<^verbatim>\<open>Schema.js\<close>) works on arbitrary JavaScript values,
  so the model starts with them. A value is taken by value, as it is at the moment of a
  call; the validators never write to what they inspect.

  \<^item> Numbers: only \<^verbatim>\<open>typeof\<close> and truthiness of a number are ever looked at. A number is
    \<open>NaN\<close>, an infinity, an integer, or \<open>Dyadic m e\<close>, the number \<open>m / 2 ^ e\<close>.
  \<^item> A plain object is the list of its own enumerable properties, in the order
    \<^verbatim>\<open>Object.keys\<close> lists them; the keys of such a list are distinct.
  \<^item> A function object is its code (one of the closures the library creates, the host's
    \<^verbatim>\<open>Array.isArray\<close>, or an arrow function returning a constant such as the tests'
    \<^verbatim>\<open>() => true\<close>), the object installed as its \<^verbatim>\<open>__proto__\<close> (\<open>None\<close> while it is
    still the host's \<^verbatim>\<open>Function.prototype\<close>) and its own enumerable properties.
  \<^item> A built-in object of the host is a value too, since reading a property can yield
    one: the constructors \<^verbatim>\<open>Object\<close>, \<^verbatim>\<open>Function\<close>, \<^verbatim>\<open>Array\<close>, \<^verbatim>\<open>String\<close>, \<^verbatim>\<open>Number\<close>,
    \<^verbatim>\<open>Boolean\<close>, \<^verbatim>\<open>Date\<close>, their prototype objects, and their other functions. Of such
    a function the library can only see the name and the length, so \<open>Fn name length\<close> is
    all it is. \<^verbatim>\<open>Array.prototype\<close> is an array without elements and is the value
    \<open>JArr []\<close>.
\<close>

datatype jsnum = NaN | PosInf | NegInf | Fin int | Dyadic int nat

datatype cls = CObject | CFunction | CArray | CString | CNumber | CBoolean | CDate

datatype proto = PObject | PFunction | PString | PNumber | PBoolean | PDate

datatype builtin = Ctor cls | Proto proto | Fn string nat

datatype jsval =
    JUndefined
  | JNull
  | JBool bool
  | JNum jsnum
  | JStr string
  | JDate "int option"
  | JArr "jsval list"
  | JObj "(string \<times> jsval) list"
  | JFun closure "(string \<times> jsval) list option" "(string \<times> jsval) list"
  | JHost builtin
and closure =
    IsSomething
  | PrimitiveValidator string
  | IsValidDate
  | ArrayIsArray
  | IsObject
  | IsArrayOfType jsval
  | ShapeMatcher jsval
  | OptionalValidator closure
  | ConstFn jsval

text \<open>
  Everything the code can throw. \<open>TypeError_read v k\<close> is the host's TypeError for reading
  property \<open>k\<close> of \<open>v\<close>: of \<^verbatim>\<open>undefined\<close> or \<^verbatim>\<open>null\<close>, and \<^verbatim>\<open>arguments\<close> or \<^verbatim>\<open>caller\<close> of a
  function. \<open>TypeError_call v\<close> is the one for calling a value that is not a function,
  \<open>RangeError\<close> the exhausted call stack. \<open>InvalidSchema bad loc\<close>
  is \<^verbatim>\<open>new Error(invalidSchemaMessage(bad, loc))\<close> and \<open>InvalidShape s\<close> is the error of
  \<^verbatim>\<open>SchemaTypes.shape\<close>, whose message ends in \<^verbatim>\<open>JSON.stringify(s)\<close>: both messages
  print a value with the host's conversions, so the error keeps the value itself.
  \<open>Host_call f\<close> is no exception of the host: it stands for the call of a built-in
  function other than \<^verbatim>\<open>Array.isArray\<close>, which the model does not follow. The library
  calls schema leaves only, and no built-in function is a leaf as it comes.
\<close>

datatype error =
    TypeError_read jsval string
  | TypeError_call jsval
  | RangeError
  | Error string
  | InvalidSchema jsval string
  | InvalidShape jsval
  | Host_call jsval

type_synonym 'a result = "error + 'a"

subsection \<open>Operators of the language\<close>

fun typeof :: "jsval \<Rightarrow> string" where
  "typeof JUndefined = ''undefined''"
| "typeof JNull = ''object''"
| "typeof (JBool b) = ''boolean''"
| "typeof (JNum n) = ''number''"
| "typeof (JStr s) = ''string''"
| "typeof (JDate t) = ''object''"
| "typeof (JArr xs) = ''object''"
| "typeof (JObj ps) = ''object''"
| "typeof (JFun c p own) = ''function''"
| "typeof (JHost (Proto p)) = (if p = PFunction then ''function'' else ''object'')"
| "typeof (JHost b) = ''function''"

text \<open>ToBoolean: what \<^verbatim>\<open>if\<close>, \<^verbatim>\<open>!\<close> and \<^verbatim>\<open>&&\<close> test.\<close>

fun truthy :: "jsval \<Rightarrow> bool" where
  "truthy JUndefined = False"
| "truthy JNull = False"
| "truthy (JBool b) = b"
| "truthy (JNum NaN) = False"
| "truthy (JNum (Fin i)) = (i \<noteq> 0)"
| "truthy (JNum (Dyadic m e)) = (m \<noteq> 0)"
| "truthy (JNum n) = True"
| "truthy (JStr s) = (s \<noteq> [])"
| "truthy v = True"

text \<open>\<^verbatim>\<open>a && b\<close> on two values already computed (as in the reducer \<^verbatim>\<open>memo && match\<close>).\<close>

definition js_and :: "jsval \<Rightarrow> jsval \<Rightarrow> jsval" where
  "js_and a b = (if truthy a then b else a)"

text \<open>Decimal numerals, the names of array and string indices.\<close>

function show_nat :: "nat \<Rightarrow> string" where
  "show_nat n =
     (if n < 10 then [''0123456789'' ! n]
      else show_nat (n div 10) @ [''0123456789'' ! (n mod 10)])"
  by pat_completeness auto
termination
  by (relation "measure id") auto

definition indices :: "nat \<Rightarrow> string list" where
  "indices n = map show_nat [0..<n]"

text \<open>
  The own enumerable properties of a value, in the order of \<^verbatim>\<open>Object.keys\<close>, each key
  with the value stored under it. Primitives are seen through their wrappers: a string
  has its characters, the others nothing. No property of a built-in object is
  enumerable.
\<close>

fun own_props :: "jsval \<Rightarrow> (string \<times> jsval) list" where
  "own_props (JObj ps) = ps"
| "own_props (JArr xs) = zip (indices (length xs)) xs"
| "own_props (JStr s) = zip (indices (length s)) (map (\<lambda>c. JStr [c]) s)"
| "own_props (JFun c p own) = own"
| "own_props v = []"

definition Object_keys :: "jsval \<Rightarrow> string list" where
  "Object_keys v = map fst (own_props v)"

subsection \<open>The built-in objects of the host\<close>

text \<open>
  The members of the seven constructors and of their prototype objects, as ECMAScript
  2022 (ECMA-262, 13th edition, with its Annex B) lists them under string keys, each
  function with its \<^verbatim>\<open>length\<close>: the edition in which the source as it is written (its
  class fields, its object spread) is a program. A host of a later edition has more
  members; none of them is named \<^verbatim>\<open>_isSchemaType\<close>.
\<close>

definition methods :: "(string \<times> nat) list \<Rightarrow> (string \<times> jsval) list" where
  "methods ms = map (\<lambda>(name, len). (name, JHost (Fn name len))) ms"

fun cls_of :: "proto \<Rightarrow> cls" where
  "cls_of PObject = CObject"
| "cls_of PFunction = CFunction"
| "cls_of PString = CString"
| "cls_of PNumber = CNumber"
| "cls_of PBoolean = CBoolean"
| "cls_of PDate = CDate"

text \<open>\<^verbatim>\<open>C.prototype\<close> as a value.\<close>

fun prototype_value :: "cls \<Rightarrow> jsval" where
  "prototype_value CObject = JHost (Proto PObject)"
| "prototype_value CFunction = JHost (Proto PFunction)"
| "prototype_value CArray = JArr []"
| "prototype_value CString = JHost (Proto PString)"
| "prototype_value CNumber = JHost (Proto PNumber)"
| "prototype_value CBoolean = JHost (Proto PBoolean)"
| "prototype_value CDate = JHost (Proto PDate)"

fun class_name :: "cls \<Rightarrow> string" where
  "class_name CObject = ''Object''"
| "class_name CFunction = ''Function''"
| "class_name CArray = ''Array''"
| "class_name CString = ''String''"
| "class_name CNumber = ''Number''"
| "class_name CBoolean = ''Boolean''"
| "class_name CDate = ''Date''"

text \<open>The data properties of \<^verbatim>\<open>C.prototype\<close> other than \<^verbatim>\<open>constructor\<close>.\<close>

fun proto_members :: "cls \<Rightarrow> (string \<times> jsval) list" where
  "proto_members CObject =
     methods [(''hasOwnProperty'', 1), (''isPrototypeOf'', 1), (''propertyIsEnumerable'', 1),
       (''toLocaleString'', 0), (''toString'', 0), (''valueOf'', 0),
       (''__defineGetter__'', 2), (''__defineSetter__'', 2), (''__lookupGetter__'', 1),
       (''__lookupSetter__'', 1)]"
| "proto_members CFunction =
     methods [(''apply'', 2), (''bind'', 1), (''call'', 1), (''toString'', 0)]
     @ [(''length'', JNum (Fin 0)), (''name'', JStr [])]"
| "proto_members CArray =
     methods [(''at'', 1), (''concat'', 1), (''copyWithin'', 2), (''entries'', 0),
       (''every'', 1), (''fill'', 1), (''filter'', 1), (''find'', 1), (''findIndex'', 1),
       (''flat'', 0), (''flatMap'', 1), (''forEach'', 1), (''includes'', 1), (''indexOf'', 1), (''join'', 1), (''keys'', 0), (''lastIndexOf'', 1),
       (''map'', 1), (''pop'', 0), (''push'', 1), (''reduce'', 1), (''reduceRight'', 1),
       (''reverse'', 0), (''shift'', 0), (''slice'', 2), (''some'', 1), (''sort'', 1),
       (''splice'', 2), (''toLocaleString'', 0), (''toString'', 0), (''unshift'', 1),
       (''values'', 0)]
     @ [(''length'', JNum (Fin 0))]"
| "proto_members CString =
     methods [(''at'', 1), (''charAt'', 1), (''charCodeAt'', 1), (''codePointAt'', 1),
       (''concat'', 1), (''endsWith'', 1), (''includes'', 1), (''indexOf'', 1),
       (''lastIndexOf'', 1), (''localeCompare'', 1), (''match'', 1), (''matchAll'', 1),
       (''normalize'', 0), (''padEnd'', 1), (''padStart'', 1), (''repeat'', 1),
       (''replace'', 2), (''replaceAll'', 2), (''search'', 1), (''slice'', 2), (''split'', 2),
       (''startsWith'', 1), (''substring'', 2), (''toLocaleLowerCase'', 0),
       (''toLocaleUpperCase'', 0), (''toLowerCase'', 0), (''toString'', 0),
       (''toUpperCase'', 0), (''trim'', 0), (''trimEnd'', 0), (''trimStart'', 0),
       (''valueOf'', 0), (''substr'', 2), (''anchor'', 1), (''big'', 0), (''blink'', 0),
       (''bold'', 0), (''fixed'', 0), (''fontcolor'', 1), (''fontsize'', 1), (''italics'', 0),
       (''link'', 1), (''small'', 0), (''strike'', 0), (''sub'', 0), (''sup'', 0)]
     @ [(''trimLeft'', JHost (Fn ''trimStart'' 0)), (''trimRight'', JHost (Fn ''trimEnd'' 0)),
        (''length'', JNum (Fin 0))]"
| "proto_members CNumber =
     methods [(''toExponential'', 1), (''toFixed'', 1), (''toLocaleString'', 0),
       (''toPrecision'', 1), (''toString'', 1), (''valueOf'', 0)]"
| "proto_members CBoolean = methods [(''toString'', 0), (''valueOf'', 0)]"
| "proto_members CDate =
     methods [(''getDate'', 0), (''getDay'', 0), (''getFullYear'', 0), (''getHours'', 0),
       (''getMilliseconds'', 0), (''getMinutes'', 0), (''getMonth'', 0), (''getSeconds'', 0),
       (''getTime'', 0), (''getTimezoneOffset'', 0), (''getUTCDate'', 0), (''getUTCDay'', 0),
       (''getUTCFullYear'', 0), (''getUTCHours'', 0), (''getUTCMilliseconds'', 0),
       (''getUTCMinutes'', 0), (''getUTCMonth'', 0), (''getUTCSeconds'', 0), (''setDate'', 1),
       (''setFullYear'', 3), (''setHours'', 4), (''setMilliseconds'', 1), (''setMinutes'', 3),
       (''setMonth'', 2), (''setSeconds'', 2), (''setTime'', 1), (''setUTCDate'', 1),
       (''setUTCFullYear'', 3), (''setUTCHours'', 4), (''setUTCMilliseconds'', 1),
       (''setUTCMinutes'', 3), (''setUTCMonth'', 2), (''setUTCSeconds'', 2),
       (''toDateString'', 0), (''toISOString'', 0), (''toJSON'', 1),
       (''toLocaleDateString'', 0), (''toLocaleString'', 0), (''toLocaleTimeString'', 0),
       (''toString'', 0), (''toTimeString'', 0), (''toUTCString'', 0), (''valueOf'', 0),
       (''getYear'', 0), (''setYear'', 1)]
     @ [(''toGMTString'', JHost (Fn ''toUTCString'' 0))]"

text \<open>The own properties of the constructor \<^verbatim>\<open>C\<close> other than \<^verbatim>\<open>length\<close>, \<^verbatim>\<open>name\<close> and
  \<^verbatim>\<open>prototype\<close>. \<^verbatim>\<open>Array.isArray\<close> is the function the library also uses as a validator.\<close>

fun statics :: "cls \<Rightarrow> (string \<times> jsval) list" where
  "statics CObject =
     methods [(''assign'', 2), (''create'', 2), (''defineProperties'', 2),
       (''defineProperty'', 3), (''entries'', 1), (''freeze'', 1), (''fromEntries'', 1),
       (''getOwnPropertyDescriptor'', 2), (''getOwnPropertyDescriptors'', 1),
       (''getOwnPropertyNames'', 1), (''getOwnPropertySymbols'', 1), (''getPrototypeOf'', 1),
       (''hasOwn'', 2), (''is'', 2), (''isExtensible'', 1), (''isFrozen'', 1),
       (''isSealed'', 1), (''keys'', 1), (''preventExtensions'', 1), (''seal'', 1),
       (''setPrototypeOf'', 2), (''values'', 1)]"
| "statics CFunction = []"
| "statics CArray =
     methods [(''from'', 1), (''of'', 0)] @ [(''isArray'', JFun ArrayIsArray None [])]"
| "statics CString = methods [(''fromCharCode'', 1), (''fromCodePoint'', 1), (''raw'', 1)]"
| "statics CNumber =
     methods [(''isFinite'', 1), (''isInteger'', 1), (''isNaN'', 1), (''isSafeInteger'', 1),
       (''parseFloat'', 1), (''parseInt'', 2)]
     @ [(''EPSILON'', JNum (Dyadic 1 52)),
        (''MAX_SAFE_INTEGER'', JNum (Fin 9007199254740991)),
        (''MAX_VALUE'', JNum (Fin (9007199254740991 * 2 ^ 971))),
        (''MIN_SAFE_INTEGER'', JNum (Fin (- 9007199254740991))),
        (''MIN_VALUE'', JNum (Dyadic 1 1074)),
        (''NaN'', JNum NaN),
        (''NEGATIVE_INFINITY'', JNum NegInf),
        (''POSITIVE_INFINITY'', JNum PosInf)]"
| "statics CBoolean = []"
| "statics CDate = methods [(''now'', 0), (''parse'', 1), (''UTC'', 7)]"

fun ctor_length :: "cls \<Rightarrow> nat" where
  "ctor_length CDate = 7"
| "ctor_length c = 1"

text \<open>
  The \<^verbatim>\<open>name\<close> and \<^verbatim>\<open>length\<close> of the library's functions: \<^verbatim>\<open>isSomething\<close>,
  \<^verbatim>\<open>isValidDate\<close> and \<^verbatim>\<open>isObject\<close> are declared with their names, the others are nameless
  arrows and a nameless function expression; all take one parameter, the constant arrow
  none. A function that is not an arrow (and not built in) has a \<^verbatim>\<open>prototype\<close>, a new
  object whose one property \<^verbatim>\<open>constructor\<close> is not enumerable: by value, an object
  without properties (the one thing a value cannot hold is that \<^verbatim>\<open>constructor\<close>, the
  function itself).
\<close>

fun closure_name :: "closure \<Rightarrow> string" where
  "closure_name IsSomething = ''isSomething''"
| "closure_name IsValidDate = ''isValidDate''"
| "closure_name IsObject = ''isObject''"
| "closure_name ArrayIsArray = ''isArray''"
| "closure_name c = []"

fun closure_length :: "closure \<Rightarrow> nat" where
  "closure_length (ConstFn r) = 0"
| "closure_length c = 1"

fun has_prototype :: "closure \<Rightarrow> bool" where
  "has_prototype IsSomething = True"
| "has_prototype IsValidDate = True"
| "has_prototype IsObject = True"
| "has_prototype (IsArrayOfType type) = True"
| "has_prototype c = False"

subsection \<open>Reading a property\<close>

text \<open>The object a value inherits from, as \<^verbatim>\<open>__proto__\<close> yields it.\<close>

fun prototype_of :: "jsval \<Rightarrow> jsval" where
  "prototype_of (JObj ps) = JHost (Proto PObject)"
| "prototype_of (JArr xs) = JArr []"
| "prototype_of (JStr s) = JHost (Proto PString)"
| "prototype_of (JNum n) = JHost (Proto PNumber)"
| "prototype_of (JBool b) = JHost (Proto PBoolean)"
| "prototype_of (JDate t) = JHost (Proto PDate)"
| "prototype_of (JFun c None own) = JHost (Proto PFunction)"
| "prototype_of (JFun c (Some ps) own) = JObj ps"
| "prototype_of (JHost (Proto p)) = (if p = PObject then JNull else JHost (Proto PObject))"
| "prototype_of (JHost b) = JHost (Proto PFunction)"
| "prototype_of v = JUndefined"

text \<open>The keys whose getter on \<^verbatim>\<open>Function.prototype\<close> throws.\<close>

definition restricted_key :: "string \<Rightarrow> bool" where
  "restricted_key k = (k = ''arguments'' \<or> k = ''caller'')"

text \<open>
  Reading key \<open>k\<close> in the prototype object of class \<open>c\<close>, for the value \<open>v\<close> that is being
  read: its data properties, the two accessors of \<^verbatim>\<open>Function.prototype\<close> that throw, and the
  accessor \<^verbatim>\<open>__proto__\<close> of \<^verbatim>\<open>Object.prototype\<close>. \<open>None\<close>: no such property.
\<close>

definition proto_lookup :: "cls \<Rightarrow> jsval \<Rightarrow> string \<Rightarrow> jsval result option" where
  "proto_lookup c v k =
     (case map_of ((''constructor'', JHost (Ctor c)) # proto_members c) k of
        Some x \<Rightarrow> Some (Inr x)
      | None \<Rightarrow>
          if c = CFunction \<and> restricted_key k then Some (Inl (TypeError_read v k))
          else if c = CObject \<and> k = ''__proto__'' then Some (Inr (prototype_of v))
          else None)"

fun lookup_chain :: "cls list \<Rightarrow> jsval \<Rightarrow> string \<Rightarrow> jsval result option" where
  "lookup_chain [] v k = None"
| "lookup_chain (c # cs) v k =
     (case proto_lookup c v k of Some r \<Rightarrow> Some r | None \<Rightarrow> lookup_chain cs v k)"

text \<open>
  The own properties that are not enumerable: \<^verbatim>\<open>length\<close> of arrays and strings;
  \<^verbatim>\<open>length\<close>, \<^verbatim>\<open>name\<close> and \<^verbatim>\<open>prototype\<close> of functions; the members of a constructor and of a
  prototype object.
\<close>

fun hidden_own :: "jsval \<Rightarrow> string \<Rightarrow> jsval result option" where
  "hidden_own (JArr xs) k =
     (if k = ''length'' then Some (Inr (JNum (Fin (int (length xs))))) else None)"
| "hidden_own (JStr s) k =
     (if k = ''length'' then Some (Inr (JNum (Fin (int (length s))))) else None)"
| "hidden_own (JFun c p own) k =
     (if k = ''length'' then Some (Inr (JNum (Fin (int (closure_length c)))))
      else if k = ''name'' then Some (Inr (JStr (closure_name c)))
      else if k = ''prototype'' \<and> has_prototype c then Some (Inr (JObj []))
      else None)"
| "hidden_own (JHost (Ctor c)) k =
     (if k = ''length'' then Some (Inr (JNum (Fin (int (ctor_length c)))))
      else if k = ''name'' then Some (Inr (JStr (class_name c)))
      else if k = ''prototype'' then Some (Inr (prototype_value c))
      else map_option Inr (map_of (statics c) k))"
| "hidden_own (JHost (Fn name len)) k =
     (if k = ''length'' then Some (Inr (JNum (Fin (int len))))
      else if k = ''name'' then Some (Inr (JStr name))
      else None)"
| "hidden_own (JHost (Proto p)) k = proto_lookup (cls_of p) (JHost (Proto p)) k"
| "hidden_own v k = None"

text \<open>The prototype objects a value inherits from, nearest first.\<close>

fun chain :: "jsval \<Rightarrow> cls list" where
  "chain (JObj ps) = [CObject]"
| "chain (JArr xs) = [CArray, CObject]"
| "chain (JStr s) = [CString, CObject]"
| "chain (JNum n) = [CNumber, CObject]"
| "chain (JBool b) = [CBoolean, CObject]"
| "chain (JDate t) = [CDate, CObject]"
| "chain (JFun c None own) = [CFunction, CObject]"
| "chain (JFun c (Some ps) own) = [CObject]"
| "chain (JHost (Proto p)) = (if p = PObject then [] else [CObject])"
| "chain (JHost b) = [CFunction, CObject]"
| "chain v = []"

text \<open>
  Property lookup below the own properties: for a function the object that replaced its
  \<^verbatim>\<open>__proto__\<close>, then the built-in prototype objects.
\<close>

definition inherited :: "jsval \<Rightarrow> string \<Rightarrow> jsval result option" where
  "inherited v k =
     (case (case v of JFun c (Some ps) own \<Rightarrow> map_of ps k | other \<Rightarrow> None) of
        Some x \<Rightarrow> Some (Inr x)
      | None \<Rightarrow> lookup_chain (chain v) v k)"

definition lookup :: "jsval \<Rightarrow> string \<Rightarrow> jsval result" where
  "lookup v k =
     (case map_of (own_props v) k of
        Some x \<Rightarrow> Inr x
      | None \<Rightarrow>
          (case hidden_own v k of
             Some r \<Rightarrow> r
           | None \<Rightarrow> (case inherited v k of Some r \<Rightarrow> r | None \<Rightarrow> Inr JUndefined)))"

text \<open>\<^verbatim>\<open>v[k]\<close> and \<^verbatim>\<open>v.k\<close>: a TypeError on \<^verbatim>\<open>undefined\<close> and \<^verbatim>\<open>null\<close>; else the own property,
  the inherited one (whose getter may throw), or \<^verbatim>\<open>undefined\<close>.\<close>

fun get :: "jsval \<Rightarrow> string \<Rightarrow> jsval result" where
  "get JUndefined k = Inl (TypeError_read JUndefined k)"
| "get JNull k = Inl (TypeError_read JNull k)"
| "get v k = lookup v k"

text \<open>The host's \<^verbatim>\<open>Array.isArray\<close>.\<close>

fun Array_isArray :: "jsval \<Rightarrow> bool" where
  "Array_isArray (JArr xs) = True"
| "Array_isArray v = False"

text \<open>\<^verbatim>\<open>Object.prototype.toString.call(object)\<close>, the helper \<^verbatim>\<open>toString\<close> of validation.js.\<close>

fun toString :: "jsval \<Rightarrow> string" where
  "toString JUndefined = ''[object Undefined]''"
| "toString JNull = ''[object Null]''"
| "toString (JBool b) = ''[object Boolean]''"
| "toString (JNum n) = ''[object Number]''"
| "toString (JStr s) = ''[object String]''"
| "toString (JDate t) = ''[object Date]''"
| "toString (JArr xs) = ''[object Array]''"
| "toString (JObj ps) = ''[object Object]''"
| "toString (JFun c p own) = ''[object Function]''"
| "toString (JHost (Proto PFunction)) = ''[object Function]''"
| "toString (JHost (Proto PString)) = ''[object String]''"
| "toString (JHost (Proto PNumber)) = ''[object Number]''"
| "toString (JHost (Proto PBoolean)) = ''[object Boolean]''"
| "toString (JHost (Proto p)) = ''[object Object]''"
| "toString (JHost b) = ''[object Function]''"

text \<open>What calling a value that has no code in the model gives: see the errors above.\<close>

definition not_callable :: "jsval \<Rightarrow> error" where
  "not_callable v = (if typeof v = ''function'' then Host_call v else TypeError_call v)"

section \<open>validation.js\<close>

subsection \<open>isValidSchema\<close>

text \<open>
  \<^verbatim>\<open>
  export function isValidSchema (schema, location = '') {
      if (schema._isSchemaType) { return null; }
      if (typeof schema === 'object' && Object.keys(schema).length > 0) {
          Object.keys(schema).forEach(
              key => isValidSchema(schema[key], location + '.' + key));
          return null;
      }
      throw new Error(invalidSchemaMessage(schema, location));
  }
  \<close>
  \<open>isValidSchema_each\<close> is the \<^verbatim>\<open>forEach\<close>: it runs over the keys with the values
  \<^verbatim>\<open>schema[key]\<close> and stops at the first call that throws.
\<close>

lemma size_snd_zip:
  "size_list (\<lambda>p. size (snd p)) (zip ks xs) \<le> size_list size (xs :: jsval list)"
proof (induction xs arbitrary: ks)
  case Nil
  show ?case by simp
next
  case (Cons x xs)
  show ?case
  proof (cases ks)
    case Nil
    then show ?thesis by simp
  next
    case (Cons k ks')
    with Cons.IH [of ks'] show ?thesis by simp
  qed
qed

lemma size_snd_props:
  "size_list (\<lambda>p. size (snd p)) ps \<le> size_list (size_prod (\<lambda>x. 0) size) (ps :: (string \<times> jsval) list)"
  by (induction ps) auto

lemma size_own_props:
  "typeof v \<noteq> ''string'' \<Longrightarrow> size_list (\<lambda>p. size (snd p)) (own_props v) \<le> size v"
proof (cases v)
  case (JArr xs)
  have "size_list (\<lambda>p. size (snd p)) (zip (indices (length xs)) xs) \<le> size_list size xs"
    by (rule size_snd_zip)
  with JArr show ?thesis by simp
next
  case (JObj ps)
  with size_snd_props [of ps] show ?thesis by simp
next
  case (JFun c p own)
  with size_snd_props [of own] show ?thesis by simp
qed simp_all

function isValidSchema :: "jsval \<Rightarrow> string \<Rightarrow> jsval result"
  and isValidSchema_each :: "(string \<times> jsval) list \<Rightarrow> string \<Rightarrow> unit result" where
  "isValidSchema schema location =
     (case get schema ''_isSchemaType'' of
        Inl e \<Rightarrow> Inl e
      | Inr marker \<Rightarrow>
          if truthy marker then Inr JNull
          else if typeof schema = ''object'' \<and> length (Object_keys schema) > 0 then
            (case isValidSchema_each (own_props schema) location of
               Inl e \<Rightarrow> Inl e
             | Inr u \<Rightarrow> Inr JNull)
          else Inl (InvalidSchema schema location))"
| "isValidSchema_each [] location = Inr ()"
| "isValidSchema_each ((key, sub) # rest) location =
     (case isValidSchema sub (location @ ''.'' @ key) of
        Inl e \<Rightarrow> Inl e
      | Inr r \<Rightarrow> isValidSchema_each rest location)"
  by pat_completeness auto
termination
proof (relation "measures
    [\<lambda>x. case x of Inl (s, l) \<Rightarrow> size s | Inr (ps, l) \<Rightarrow> size_list (\<lambda>p. size (snd p)) ps,
     \<lambda>x. case x of Inl a \<Rightarrow> Suc 0 | Inr b \<Rightarrow> 0]", goal_cases)
  case 1
  show ?case by simp
next
  case (2 schema location marker)
  then have "typeof schema \<noteq> ''string''" by simp
  from size_own_props [OF this] show ?case by auto
next
  case 3
  show ?case by simp
next
  case 4
  show ?case by simp
qed

declare isValidSchema.simps(1) [simp del]

text \<open>
  \<^verbatim>\<open>
  export function invalidSchemaMessage (badLeaf, location) {
      return `(At ${location}): Expected a SchemaType, but got ${badLeaf}:${typeof badLeaf}`;
  }
  \<close>
  The text of the error \<open>InvalidSchema badLeaf location\<close>. The template prints \<open>badLeaf\<close>
  with the host's conversion to a string, which is the parameter \<open>to_string\<close>.
\<close>

definition invalidSchemaMessage :: "(jsval \<Rightarrow> string) \<Rightarrow> jsval \<Rightarrow> string \<Rightarrow> string" where
  "invalidSchemaMessage to_string badLeaf location =
     ''(At '' @ location @ ''): Expected a SchemaType, but got '' @ to_string badLeaf @ '':''
       @ typeof badLeaf"

subsection \<open>objectMatchesSchema and its recursive matcher\<close>

text \<open>
  \<^verbatim>\<open>
  export function objectMatchesSchema (schema, testObject) {
      try { isValidSchema(schema); }
      catch (err) { throw new Error('Expected "schema" to be a valid schema'); }
      return objectMatchesSchemaInner(schema, testObject);
  }
  function objectMatchesSchemaInner (schema, testObject) {
      if (schema._isSchemaType) { return schema(testObject); }
      return Object.keys(schema)
          .map(key => objectMatchesSchemaInner(schema[key], testObject && testObject[key]))
          .reduce((memo, match) => memo && match, true);
  }
  \<close>
  \<open>child\<close> is the argument \<^verbatim>\<open>testObject && testObject[key]\<close>: the operator \<^verbatim>\<open>&&\<close> yields
  its left operand when that is falsy, and only otherwise reads the property.
\<close>

definition child :: "jsval \<Rightarrow> string \<Rightarrow> jsval result" where
  "child testObject key = (if truthy testObject then get testObject key else Inr testObject)"

definition invalid_schema_message :: string where
  \<open>invalid_schema_message = ''Expected "schema" to be a valid schema''\<close>

lemma size_own_props_keys:
  "typeof v \<noteq> ''string'' \<or> Object_keys v = [] \<Longrightarrow>
     size_list (\<lambda>p. size (snd p)) (own_props v) \<le> size v"
  by (cases "typeof v = ''string''") (auto simp: Object_keys_def size_own_props)

lemma is_measure_props [measure_function]:
  "is_measure (\<lambda>ps :: (string \<times> jsval) list. size_list (\<lambda>p. size (snd p)) ps)"
  by (rule is_measure_trivial)

text \<open>
  The matcher, the calls of the function values it can meet, and the iterations in between:
  \<^item> \<open>matchEach\<close> is the \<^verbatim>\<open>.map\<close> over \<^verbatim>\<open>Object.keys(schema)\<close>: all children are matched,
    in order, before the reducer runs; the first throw ends it.
  \<^item> \<open>call_closure c x\<close> runs the code of a function object. The closures are those of
    validation.js: \<^verbatim>\<open>isSomething\<close>, \<^verbatim>\<open>getPrimitiveValidator(type)\<close>, \<^verbatim>\<open>isValidDate\<close>,
    \<^verbatim>\<open>isObject\<close>, \<^verbatim>\<open>isArrayOfType(type)\<close>, \<^verbatim>\<open>getOptionalValidator(actuallyValidate)\<close>; the
    arrow \<^verbatim>\<open>object => validation.objectMatchesSchema(shape, object)\<close> of Schema.js; the host's
    \<^verbatim>\<open>Array.isArray\<close>; and a constant arrow.
  \<^item> \<open>every_match\<close> is lodash's \<^verbatim>\<open>_.every(testArray, el => objectMatchesSchema(type, el))\<close>
    on an array: \<^verbatim>\<open>false\<close> at the first falsy result, \<^verbatim>\<open>true\<close> at the end.
  \<^item> The matcher is private and only entered on a schema that \<open>isValidSchema\<close> accepted.
    On a non-empty string (which is never such a schema) \<^verbatim>\<open>Object.keys\<close> lists the
    indices, \<^verbatim>\<open>schema[key]\<close> is a one-character string, and the recursion on it never
    ends: the host throws a RangeError when the stack is exhausted.
\<close>

function objectMatchesSchema :: "jsval \<Rightarrow> jsval \<Rightarrow> jsval result"
  and objectMatchesSchemaInner :: "jsval \<Rightarrow> jsval \<Rightarrow> jsval result"
  and matchEach :: "(string \<times> jsval) list \<Rightarrow> jsval \<Rightarrow> jsval list result"
  and call_closure :: "closure \<Rightarrow> jsval \<Rightarrow> jsval result"
  and every_match :: "jsval \<Rightarrow> jsval list \<Rightarrow> jsval result" where
  "objectMatchesSchema schema testObject =
     (case isValidSchema schema [] of
        Inl err \<Rightarrow> Inl (Error invalid_schema_message)
      | Inr ok \<Rightarrow> objectMatchesSchemaInner schema testObject)"
| "objectMatchesSchemaInner schema testObject =
     (case get schema ''_isSchemaType'' of
        Inl e \<Rightarrow> Inl e
      | Inr marker \<Rightarrow>
          if truthy marker then
            (case schema of
               JFun c p own \<Rightarrow> call_closure c testObject
             | other \<Rightarrow> Inl (not_callable schema))
          else if typeof schema = ''string'' \<and> Object_keys schema \<noteq> [] then Inl RangeError
          else
            (case matchEach (own_props schema) testObject of
               Inl e \<Rightarrow> Inl e
             | Inr matches \<Rightarrow> Inr (foldl js_and (JBool True) matches)))"
| "matchEach [] testObject = Inr []"
| "matchEach ((key, sub) # rest) testObject =
     (case child testObject key of
        Inl e \<Rightarrow> Inl e
      | Inr field \<Rightarrow>
          (case objectMatchesSchemaInner sub field of
             Inl e \<Rightarrow> Inl e
           | Inr m \<Rightarrow>
               (case matchEach rest testObject of
                  Inl e \<Rightarrow> Inl e
                | Inr ms \<Rightarrow> Inr (m # ms))))"
| "call_closure IsSomething test = Inr (JBool (typeof test \<noteq> ''undefined''))"
| "call_closure (PrimitiveValidator type) test = Inr (JBool (typeof test = type))"
| "call_closure IsValidDate test =
     (if toString test \<noteq> ''[object Date]'' then Inr (JBool False)
      else (case test of JDate t \<Rightarrow> Inr (JBool (t \<noteq> None)) | other \<Rightarrow> Inr (JBool False)))"
| "call_closure ArrayIsArray test = Inr (JBool (Array_isArray test))"
| "call_closure IsObject test = Inr (JBool (toString test = ''[object Object]''))"
| "call_closure (IsArrayOfType type) testArray =
     (case testArray of
        JArr els \<Rightarrow> every_match type els
      | other \<Rightarrow> Inr (JBool False))"
| "call_closure (ShapeMatcher shape) object = objectMatchesSchema shape object"
| "call_closure (OptionalValidator actuallyValidate) testObject =
     (if typeof testObject = ''undefined'' then Inr (JBool True)
      else call_closure actuallyValidate testObject)"
| "call_closure (ConstFn r) x = Inr r"
| "every_match type [] = Inr (JBool True)"
| "every_match type (el # els) =
     (case objectMatchesSchema type el of
        Inl e \<Rightarrow> Inl e
      | Inr m \<Rightarrow> if truthy m then every_match type els else Inr (JBool False))"
  by pat_completeness auto
termination
  by (lexicographic_order simp: size_own_props_keys)

declare objectMatchesSchema.simps [simp del]
declare objectMatchesSchemaInner.simps [simp del]

text \<open>Calling a value: a function object runs its code.\<close>

definition call :: "jsval \<Rightarrow> jsval \<Rightarrow> jsval result" where
  "call f x = (case f of JFun c p own \<Rightarrow> call_closure c x | other \<Rightarrow> Inl (not_callable f))"

subsection \<open>The validators and their constructors\<close>

text \<open>
  \<^verbatim>\<open>isSomething\<close>, \<^verbatim>\<open>isValidDate\<close> and \<^verbatim>\<open>isObject\<close> are function declarations;
  \<^verbatim>\<open>getPrimitiveValidator\<close>, \<^verbatim>\<open>isArrayOfType\<close> and \<^verbatim>\<open>getOptionalValidator\<close> return a new
  closure over their argument at each call.
\<close>

definition isSomething :: closure where
  "isSomething = IsSomething"

definition isValidDate :: closure where
  "isValidDate = IsValidDate"

definition isObject :: closure where
  "isObject = IsObject"

definition getPrimitiveValidator :: "string \<Rightarrow> closure" where
  "getPrimitiveValidator type = PrimitiveValidator type"

definition isArrayOfType :: "jsval \<Rightarrow> closure" where
  "isArrayOfType type = IsArrayOfType type"

definition getOptionalValidator :: "closure \<Rightarrow> closure" where
  "getOptionalValidator actuallyValidate = OptionalValidator actuallyValidate"

text \<open>
  \<^verbatim>\<open>
  export function isValidShape (schema) {
      if (!isObject(schema)) {
          throw new Error(`Expected schema to be an object, but got ${typeof schema}`);
      }
      return isValidSchema(schema);
  }
  \<close>
\<close>

definition isValidShape :: "jsval \<Rightarrow> jsval result" where
  "isValidShape schema =
     (case call_closure isObject schema of
        Inl e \<Rightarrow> Inl e
      | Inr r \<Rightarrow>
          if \<not> truthy r
          then Inl (Error (''Expected schema to be an object, but got '' @ typeof schema))
          else isValidSchema schema [])"

section \<open>Schema.js\<close>

subsection \<open>SchemaType and the factories, by value\<close>

text \<open>
  Object spread \<^verbatim>\<open>{...base, ...src}\<close>: the own enumerable properties of \<open>src\<close> are
  written over \<open>base\<close> one by one (a key already there keeps its place and takes the new
  value); spreading \<^verbatim>\<open>undefined\<close> or \<^verbatim>\<open>null\<close> adds nothing.
\<close>

definition spread :: "(string \<times> jsval) list \<Rightarrow> jsval \<Rightarrow> (string \<times> jsval) list" where
  "spread base src = foldl (\<lambda>ps (k, v). AList.update k v ps) base (own_props src)"

text \<open>A default parameter \<^verbatim>\<open>opts = {}\<close>: the default is taken when the argument is
  \<^verbatim>\<open>undefined\<close>.\<close>

definition default_object :: "jsval \<Rightarrow> jsval" where
  "default_object opts = (if opts = JUndefined then JObj [] else opts)"

text \<open>
  \<^verbatim>\<open>
  export function SchemaType (validate, type, opts = {}) {
      const func = validate;
      func.__proto__ = { _isSchemaType: true, _type: type, ...opts };
      return func;
  }
  \<close>
  \<open>schemaType_proto\<close> is the object literal. \<open>SchemaType\<close> takes the function object
  \<open>validate\<close> as it is and returns it as it is after the assignment; the library only
  passes functions.
\<close>

definition schemaType_proto :: "string \<Rightarrow> jsval \<Rightarrow> (string \<times> jsval) list" where
  "schemaType_proto type opts =
     spread [(''_isSchemaType'', JBool True), (''_type'', JStr type)] (default_object opts)"

definition SchemaType :: "jsval \<Rightarrow> string \<Rightarrow> jsval \<Rightarrow> jsval" where
  "SchemaType validate type opts =
     (case validate of
        JFun c p own \<Rightarrow> JFun c (Some (schemaType_proto type opts)) own
      | other \<Rightarrow> other)"

text \<open>\<^verbatim>\<open>f.key = x\<close> on a function object.\<close>

definition set_own :: "jsval \<Rightarrow> string \<Rightarrow> jsval \<Rightarrow> jsval" where
  "set_own f key x =
     (case f of JFun c p own \<Rightarrow> JFun c p (AList.update key x own) | other \<Rightarrow> other)"

text \<open>
  \<^verbatim>\<open>
  export function getOptionalSchemaTypeFactory (validator, typeName) {
      return (opts = {}) => {
          const optionalSchemaType = SchemaType(
              validation.getOptionalValidator(validator), typeName, opts);
          optionalSchemaType.isRequired = SchemaType(validator, typeName, opts);
          return optionalSchemaType;
      }
  }
  \<close>
  \<open>validator\<close> is the code of the validator function; \<open>fresh c\<close> is a function object
  with that code and nothing set on it yet. The factory is the curried function of
  \<open>opts\<close>. Which function objects two results share is the subject of the section on
  object identity below; here a result is the value it is when it is returned.
\<close>

definition fresh :: "closure \<Rightarrow> jsval" where
  "fresh c = JFun c None []"

definition getOptionalSchemaTypeFactory :: "closure \<Rightarrow> string \<Rightarrow> jsval \<Rightarrow> jsval" where
  "getOptionalSchemaTypeFactory validator typeName opts =
     (let opts = default_object opts;
          optionalSchemaType = SchemaType (fresh (getOptionalValidator validator)) typeName opts
      in set_own optionalSchemaType ''isRequired'' (SchemaType (fresh validator) typeName opts))"

text \<open>The members of \<^verbatim>\<open>SchemaTypes\<close>.\<close>

definition SchemaTypes_any :: "jsval \<Rightarrow> jsval" where
  "SchemaTypes_any = getOptionalSchemaTypeFactory isSomething ''any''"

definition SchemaTypes_string :: "jsval \<Rightarrow> jsval" where
  "SchemaTypes_string = getOptionalSchemaTypeFactory (getPrimitiveValidator ''string'') ''string''"

definition SchemaTypes_boolean :: "jsval \<Rightarrow> jsval" where
  "SchemaTypes_boolean =
     getOptionalSchemaTypeFactory (getPrimitiveValidator ''boolean'') ''boolean''"

definition SchemaTypes_function :: "jsval \<Rightarrow> jsval" where
  "SchemaTypes_function =
     getOptionalSchemaTypeFactory (getPrimitiveValidator ''function'') ''function''"

definition SchemaTypes_number :: "jsval \<Rightarrow> jsval" where
  "SchemaTypes_number = getOptionalSchemaTypeFactory (getPrimitiveValidator ''number'') ''number''"

definition SchemaTypes_date :: "jsval \<Rightarrow> jsval" where
  "SchemaTypes_date = getOptionalSchemaTypeFactory isValidDate ''date''"

definition SchemaTypes_array :: "jsval \<Rightarrow> jsval" where
  "SchemaTypes_array = getOptionalSchemaTypeFactory ArrayIsArray ''array''"

definition SchemaTypes_object :: "jsval \<Rightarrow> jsval" where
  "SchemaTypes_object = getOptionalSchemaTypeFactory isObject ''object''"

text \<open>
  \<^verbatim>\<open>
  arrayOf: arrayElementType => {
      return (options = {}) => {
          return getOptionalSchemaTypeFactory(
              validation.isArrayOfType(arrayElementType), 'arrayOf'
          )({ ...options, _elementType: arrayElementType });
      };
  },
  \<close>
\<close>

definition SchemaTypes_arrayOf :: "jsval \<Rightarrow> jsval \<Rightarrow> jsval" where
  "SchemaTypes_arrayOf arrayElementType options =
     getOptionalSchemaTypeFactory (isArrayOfType arrayElementType) ''arrayOf''
       (JObj (AList.update ''_elementType'' arrayElementType
                (spread [] (default_object options))))"

text \<open>
  \<^verbatim>\<open>
  shape: shape => {
      if (!validation.isValidShape(shape)) {
          throw new Error(`Expected a valid shape, but got ${JSON.stringify(shape)}`);
      }
      return (options = {}) => {
          return getOptionalSchemaTypeFactory(
              object => validation.objectMatchesSchema(shape, object), 'shape'
          )({ ...options, _shape: shape })
      }
  },
  \<close>
  The result is the error, or the factory as a function of \<open>options\<close>.
\<close>

definition SchemaTypes_shape :: "jsval \<Rightarrow> (jsval \<Rightarrow> jsval) result" where
  "SchemaTypes_shape shape =
     (case isValidShape shape of
        Inl e \<Rightarrow> Inl e
      | Inr r \<Rightarrow>
          if \<not> truthy r then Inl (InvalidShape shape)
          else Inr (\<lambda>options.
                 getOptionalSchemaTypeFactory (ShapeMatcher shape) ''shape''
                   (JObj (AList.update ''_shape'' shape
                            (spread [] (default_object options))))))"

text \<open>\<^verbatim>\<open>schemaType.isRequired\<close>, for a SchemaType that has the property.\<close>

definition isRequired :: "jsval \<Rightarrow> jsval" where
  "isRequired schemaType =
     (case get schemaType ''isRequired'' of Inr v \<Rightarrow> v | Inl e \<Rightarrow> JUndefined)"

subsection \<open>SchemaType and the factories, with object identity\<close>

text \<open>
  \<open>SchemaType\<close> does not make a function: it assigns to \<^verbatim>\<open>__proto__\<close> of the function it
  is given and returns that same function. Whether two SchemaTypes are independent of
  each other is therefore a question of which function objects they are, and the model
  above, which returns values, cannot ask it. Here the function objects live in a heap
  (a list, an object's address being its index) and the same two functions of Schema.js
  work on addresses:
  \<^item> a function object is its code, its \<^verbatim>\<open>__proto__\<close> object and its own properties;
  \<^item> an own property holds a value or the address of a function object;
  \<^item> a closure keeps the code of the function it captured (code never changes);
  \<^item> the addresses handed to these functions are those of allocated objects.
\<close>

datatype slot = Val jsval | Ref nat

record fobj =
  fn_code :: closure
  fn_proto :: "(string \<times> jsval) list option"
  fn_own :: "(string \<times> slot) list"

type_synonym heap = "fobj list"

definition alloc :: "fobj \<Rightarrow> heap \<Rightarrow> nat \<times> heap" where
  "alloc f h = (length h, h @ [f])"

text \<open>\<^verbatim>\<open>const func = validate; func.__proto__ = {...}; return func;\<close>\<close>

definition SchemaType_at :: "nat \<Rightarrow> string \<Rightarrow> jsval \<Rightarrow> heap \<Rightarrow> nat \<times> heap" where
  "SchemaType_at validate type opts h =
     (let func = validate
      in (func, h[func := (h ! func)\<lparr>fn_proto := Some (schemaType_proto type opts)\<rparr>]))"

text \<open>\<^verbatim>\<open>getOptionalValidator\<close> returns a new arrow function at each call.\<close>

definition getOptionalValidator_at :: "nat \<Rightarrow> heap \<Rightarrow> nat \<times> heap" where
  "getOptionalValidator_at actuallyValidate h =
     alloc \<lparr>fn_code = getOptionalValidator (fn_code (h ! actuallyValidate)),
            fn_proto = None, fn_own = []\<rparr> h"

text \<open>\<^verbatim>\<open>f.key = x\<close> on the function object at address \<open>f\<close>.\<close>

definition set_own_at :: "nat \<Rightarrow> string \<Rightarrow> slot \<Rightarrow> heap \<Rightarrow> heap" where
  "set_own_at f key x h = h[f := (h ! f)\<lparr>fn_own := AList.update key x (fn_own (h ! f))\<rparr>]"

text \<open>
  The factory returned by \<^verbatim>\<open>getOptionalSchemaTypeFactory(validator, typeName)\<close>, called
  with \<open>opts\<close>: \<open>validator\<close> is the address of the one validator function the factory
  closed over.
\<close>

definition getOptionalSchemaTypeFactory_at ::
    "nat \<Rightarrow> string \<Rightarrow> jsval \<Rightarrow> heap \<Rightarrow> nat \<times> heap" where
  "getOptionalSchemaTypeFactory_at validator typeName opts h =
     (let opts = default_object opts;
          (wrapper, h) = getOptionalValidator_at validator h;
          (optionalSchemaType, h) = SchemaType_at wrapper typeName opts h;
          (required, h) = SchemaType_at validator typeName opts h
      in (optionalSchemaType, set_own_at optionalSchemaType ''isRequired'' (Ref required) h))"

text \<open>
  The validator functions that exist once the two modules are loaded, in the order of
  the members of \<^verbatim>\<open>SchemaTypes\<close>: the string factory closed over the function at
  address 1.
\<close>

definition module_heap :: heap where
  "module_heap =
     [\<lparr>fn_code = isSomething, fn_proto = None, fn_own = []\<rparr>,
      \<lparr>fn_code = getPrimitiveValidator ''string'', fn_proto = None, fn_own = []\<rparr>,
      \<lparr>fn_code = getPrimitiveValidator ''boolean'', fn_proto = None, fn_own = []\<rparr>,
      \<lparr>fn_code = getPrimitiveValidator ''function'', fn_proto = None, fn_own = []\<rparr>,
      \<lparr>fn_code = getPrimitiveValidator ''number'', fn_proto = None, fn_own = []\<rparr>,
      \<lparr>fn_code = isValidDate, fn_proto = None, fn_own = []\<rparr>,
      \<lparr>fn_code = ArrayIsArray, fn_proto = None, fn_own = []\<rparr>,
      \<lparr>fn_code = isObject, fn_proto = None, fn_own = []\<rparr>]"

definition SchemaTypes_string_at :: "jsval \<Rightarrow> heap \<Rightarrow> nat \<times> heap" where
  "SchemaTypes_string_at = getOptionalSchemaTypeFactory_at 1 ''string''"

text \<open>
  The function object at an address, as a value: what a caller holding the address sees
  at this moment. A reference is followed to the object it names; the objects here only
  refer to objects older than themselves.
\<close>

function snapshot :: "heap \<Rightarrow> nat \<Rightarrow> jsval" where
  "snapshot h a =
     (if a < length h
      then JFun (fn_code (h ! a)) (fn_proto (h ! a))
             (map (\<lambda>(k, s). (k, case s of Val v \<Rightarrow> v
                                   | Ref r \<Rightarrow> if r < a then snapshot h r else JUndefined))
                  (fn_own (h ! a)))
      else JUndefined)"
  by pat_completeness auto
termination
  by (relation "measure snd") auto

declare snapshot.simps [simp del]

section \<open>Notions used in the statements\<close>




subsection \<open>Well-formed schemas\<close>








subsection \<open>Schemas whose leaves always answer\<close>




subsection \<open>Values that agree on a schema\<close>


definition field :: "jsval \<Rightarrow> string \<Rightarrow> jsval" where
  "field v k = (case get v k of Inr x \<Rightarrow> x | Inl e \<Rightarrow> JUndefined)"




subsection \<open>Elements that match\<close>

text \<open>
  An element matches a schema when \<open>objectMatchesSchema\<close> returns on it and the result is
  truthy, which is what \<^verbatim>\<open>_.every\<close> tests.
\<close>

definition element_matches :: "jsval \<Rightarrow> jsval \<Rightarrow> bool" where
  "element_matches S el =
     (case objectMatchesSchema S el of Inr m \<Rightarrow> truthy m | Inl e \<Rightarrow> False)"

section \<open>Properties\<close>

lemmas schema_defs =
  SchemaTypes_any_def SchemaTypes_string_def SchemaTypes_boolean_def SchemaTypes_function_def
  SchemaTypes_number_def SchemaTypes_date_def SchemaTypes_array_def SchemaTypes_object_def
  SchemaTypes_arrayOf_def getOptionalSchemaTypeFactory_def SchemaType_def set_own_def fresh_def
  schemaType_proto_def spread_def default_object_def getOptionalValidator_def
  getPrimitiveValidator_def isArrayOfType_def isSomething_def isValidDate_def isObject_def
  isRequired_def

lemmas read_defs =
  lookup_def inherited_def proto_lookup_def methods_def restricted_key_def

lemmas match_defs =
  objectMatchesSchema.simps objectMatchesSchemaInner.simps isValidSchema.simps(1)
  Object_keys_def child_def js_and_def call_def not_callable_def read_defs

lemmas heap_defs =
  SchemaTypes_string_at_def module_heap_def getOptionalSchemaTypeFactory_at_def
  getOptionalValidator_at_def alloc_def SchemaType_at_def set_own_at_def Let_def

subsection \<open>Basic facts\<close>

lemma typeof_undefined: "(typeof v = ''undefined'') = (v = JUndefined)"
  by (cases v rule: typeof.cases) simp_all

text \<open>
  A read throws on \<^verbatim>\<open>undefined\<close> and \<^verbatim>\<open>null\<close>, and under the keys \<^verbatim>\<open>arguments\<close> and
  \<^verbatim>\<open>caller\<close>; it throws nowhere else.
\<close>

lemma get_lookup: "v \<noteq> JUndefined \<Longrightarrow> v \<noteq> JNull \<Longrightarrow> get v k = lookup v k"
  by (cases v) simp_all








text \<open>A plain object is read through its list of properties; no read of it throws.\<close>

lemma get_object:
  "get (JObj ps) k = (case map_of ps k of Some x \<Rightarrow> Inr x | None \<Rightarrow> get (JObj []) k)"
  by (simp add: lookup_def inherited_def proto_lookup_def split: option.splits)


lemma indices_0: "indices 0 = []"
  by (simp add: indices_def)

lemma indices_Suc: "indices (Suc n) = indices n @ [show_nat n]"
  by (simp add: indices_def)

text \<open>Indices: distinct numbers have distinct numerals.\<close>

lemma digit_inj:
  "a < 10 \<Longrightarrow> b < 10 \<Longrightarrow> ''0123456789'' ! a = ''0123456789'' ! b \<Longrightarrow> a = b"
  by (subst (asm) nth_eq_iff_index_eq) simp_all

lemma show_nat_not_Nil: "show_nat n \<noteq> []"
  by (subst show_nat.simps) simp

lemma show_nat_inj: "show_nat m = show_nat n \<Longrightarrow> m = n"
proof (induction m arbitrary: n rule: show_nat.induct)
  case (1 m)
  show ?case
  proof (cases "m < 10")
    case True
    show ?thesis
    proof (cases "n < 10")
      case n: True
      from "1.prems" True n have "''0123456789'' ! m = ''0123456789'' ! n"
        by (simp add: show_nat.simps [of m] show_nat.simps [of n])
      with True n show ?thesis by (rule digit_inj)
    next
      case False
      with "1.prems" True show_nat_not_Nil [of "n div 10"] show ?thesis
        by (simp add: show_nat.simps [of m] show_nat.simps [of n] Cons_eq_append_conv)
    qed
  next
    case False
    show ?thesis
    proof (cases "n < 10")
      case True
      with "1.prems" False show_nat_not_Nil [of "m div 10"] show ?thesis
        by (simp add: show_nat.simps [of m] show_nat.simps [of n] append_eq_Cons_conv)
    next
      case n: False
      from "1.prems" False n
      have e: "show_nat (m div 10) = show_nat (n div 10)"
        and d: "''0123456789'' ! (m mod 10) = ''0123456789'' ! (n mod 10)"
        by (simp_all add: show_nat.simps [of m] show_nat.simps [of n])
      from "1.IH" [OF False e] have "m div 10 = n div 10" .
      moreover from d have "m mod 10 = n mod 10" by (intro digit_inj) simp_all
      ultimately show ?thesis by (metis div_mult_mod_eq)
    qed
  qed
qed

lemma distinct_indices: "distinct (indices n)"
  by (simp add: indices_def distinct_map inj_on_def show_nat_inj)

lemma keys_array: "map fst (own_props (JArr xs)) = indices (length xs)"
  by (simp add: indices_def)

text \<open>
  The list of own properties pairs each key with \<^verbatim>\<open>v[key]\<close>, for every value whose keys are
  distinct; those of an array are.
\<close>

lemma own_props_get:
  assumes "(k, sub) \<in> set (own_props v)" and "distinct (Object_keys v)"
    and "v \<noteq> JUndefined" and "v \<noteq> JNull"
  shows "get v k = Inr sub"
proof -
  from assms(1,2) have "map_of (own_props v) k = Some sub"
    by (simp add: Object_keys_def)
  with assms(3,4) show ?thesis by (simp add: get_lookup lookup_def)
qed

lemma distinct_keys_array: "distinct (Object_keys (JArr xs))"
  unfolding Object_keys_def keys_array by (rule distinct_indices)






lemma isValidSchema_returns_null: "isValidSchema s loc = Inr r \<Longrightarrow> r = JNull"
  by (simp add: isValidSchema.simps(1) split: sum.splits if_splits)








subsection \<open>isValidSchema\<close>










subsection \<open>An invalid schema\<close>

text \<open>
  Claim C6, as amended. For every schema that \<open>isValidSchema\<close> rejects, whatever it throws
  there (its own error, or the TypeError of reading \<^verbatim>\<open>undefined\<close> or \<^verbatim>\<open>null\<close>), and for
  every value, \<open>objectMatchesSchema\<close> throws an \<^verbatim>\<open>Error\<close> whose message is
  \<^verbatim>\<open>Expected "schema" to be a valid schema\<close>; it returns nothing.
\<close>

theorem rejected_schema_one_error:
  \<open>isValidSchema S [] = Inl e \<Longrightarrow>
   objectMatchesSchema S v = Inl (Error ''Expected "schema" to be a valid schema'')\<close>
  by (simp add: objectMatchesSchema.simps invalid_schema_message_def)

theorem rejected_schema_one_error_witness:
  \<open>isValidSchema (JObj []) [] = Inl (InvalidSchema (JObj []) []) \<and>
   objectMatchesSchema (JObj []) (JNum (Fin 1))
     = Inl (Error ''Expected "schema" to be a valid schema'')\<close>
proof -
  have h: "isValidSchema (JObj []) [] = Inl (InvalidSchema (JObj []) [])"
    by (simp add: match_defs)
  from h rejected_schema_one_error [OF h, of "JNum (Fin 1)"] show ?thesis by simp
qed

text \<open>
  Claim C6 as it stands speaks of the message \<^verbatim>\<open>expected a valid schema\<close> and of every
  schema that is not a SchemaType or a non-empty mapping of schemas. On the empty mapping
  the error does not have that message. An array of SchemaTypes is not a mapping, and on
  it the match returns \<^verbatim>\<open>true\<close>. An object with the marker that is not a function is not
  a SchemaType, and on it the match throws the TypeError of calling it.
\<close>

theorem invalid_schema_other_outcomes:
  \<open>objectMatchesSchema (JObj []) JUndefined \<noteq> Inl (Error ''expected a valid schema'') \<and>
   objectMatchesSchema (JArr [isRequired (SchemaTypes_string JUndefined)]) (JArr [JStr ''a''])
     = Inr (JBool True) \<and>
   objectMatchesSchema (JObj [(''_isSchemaType'', JBool True)]) JUndefined
     = Inl (TypeError_call (JObj [(''_isSchemaType'', JBool True)]))\<close>
  by (simp add: schema_defs match_defs invalid_schema_message_def indices_0 indices_Suc)

subsection \<open>The marker property\<close>

text \<open>
  Claim C9: a truthy \<^verbatim>\<open>_isSchemaType\<close> property is all that makes a value a leaf. Every
  value that has one passes \<open>isValidSchema\<close>; when it is not a function,
  \<open>objectMatchesSchema\<close> throws on every value, from calling the leaf.
\<close>

theorem marker_decides_leaf:
  assumes "get s ''_isSchemaType'' = Inr m" and "truthy m"
  shows "isValidSchema s loc = Inr JNull \<and>
         (typeof s \<noteq> ''function'' \<longrightarrow> objectMatchesSchema s v = Inl (TypeError_call s))"
proof -
  have valid: "isValidSchema s loc = Inr JNull" for loc
    using assms by (simp add: isValidSchema.simps(1))
  have "objectMatchesSchema s v = Inl (TypeError_call s)" if "typeof s \<noteq> ''function''"
    using that assms valid [of "[]"]
    by (cases s)
      (simp_all add: objectMatchesSchema.simps objectMatchesSchemaInner.simps not_callable_def)
  with valid show ?thesis by simp
qed

theorem marker_decides_leaf_witness:
  "isValidSchema (JObj [(''_isSchemaType'', JBool True)]) [] = Inr JNull \<and>
   objectMatchesSchema (JObj [(''_isSchemaType'', JBool True)]) (JStr ''x'')
     = Inl (TypeError_call (JObj [(''_isSchemaType'', JBool True)]))"
  using marker_decides_leaf
    [of "JObj [(''_isSchemaType'', JBool True)]" "JBool True" "[]" "JStr ''x''"]
  by (simp add: lookup_def)

subsection \<open>A valid schema and any value\<close>











text \<open>
  Nor is every result a boolean: the SchemaType that Schema.js itself makes when it is
  loaded, \<^verbatim>\<open>new SchemaType(() => null, 'afkj', {})\<close>, is a valid schema on which the match
  returns \<^verbatim>\<open>null\<close>.
\<close>

lemma constant_null_leaf_returns_null:
  "objectMatchesSchema (SchemaType (fresh (ConstFn JNull)) ''afkj'' (JObj [])) v = Inr JNull"
  by (simp add: schema_defs match_defs)

subsection \<open>Fields of a value that is not an object\<close>

text \<open>
  What the matcher hands to a child: the field of a truthy value (\<^verbatim>\<open>undefined\<close> when
  the value has no such property), and a falsy value itself.
\<close>

lemma child_truthy: "truthy v \<Longrightarrow> child v k = get v k"
  by (simp add: child_def)

lemma child_falsy: "\<not> truthy v \<Longrightarrow> child v k = Inr v"
  by (simp add: child_def)

text \<open>
  Claim C2 says that a field is read from the value when the value is structured data and
  is otherwise absent (\<^verbatim>\<open>undefined\<close>), so that a schema whose only field is a required
  number does not match the primitive \<^verbatim>\<open>0\<close>. The code at that input: \<^verbatim>\<open>0 && 0[key]\<close> is
  \<^verbatim>\<open>0\<close>, the required number leaf is applied to \<^verbatim>\<open>0\<close> itself, and the match is \<^verbatim>\<open>true\<close>.
\<close>

theorem falsy_value_passed_to_required_leaf:
  "objectMatchesSchema (JObj [(''n'', isRequired (SchemaTypes_number JUndefined))]) (JNum (Fin 0))
     = Inr (JBool True)"
  by (simp add: schema_defs match_defs)

subsection \<open>Matching reads the keys of the schema only\<close>









subsection \<open>isArrayOfType\<close>

lemma every_match_true:
  "every_match S els = Inr (JBool True) \<longleftrightarrow> list_all (element_matches S) els"
  by (induction els) (auto simp: element_matches_def split: sum.splits)

text \<open>
  Claim C7: the predicate \<open>isArrayOfType(S)\<close> returns \<^verbatim>\<open>false\<close>, without throwing, on
  every value that is not an array, and it returns \<^verbatim>\<open>true\<close> exactly on the arrays all of
  whose elements match \<open>S\<close> through \<open>objectMatchesSchema\<close>. This holds for every \<open>S\<close>, the
  valid element schemas among them.
\<close>

theorem isArrayOfType_predicate:
  "(\<not> Array_isArray x \<longrightarrow> call_closure (isArrayOfType S) x = Inr (JBool False)) \<and>
   (call_closure (isArrayOfType S) x = Inr (JBool True)
      \<longleftrightarrow> (\<exists>els. x = JArr els \<and> list_all (element_matches S) els))"
  by (cases x) (simp_all add: isArrayOfType_def every_match_true)

theorem isArrayOfType_predicate_witness:
  "call_closure (isArrayOfType (SchemaTypes_number JUndefined)) (JNum (Fin 0))
     = Inr (JBool False) \<and>
   call_closure (isArrayOfType (SchemaTypes_number JUndefined)) (JArr [JNum (Fin 1), JNum (Fin 2)])
     = Inr (JBool True)"
proof -
  have m: "element_matches (SchemaTypes_number JUndefined) (JNum (Fin n))" for n
    by (simp add: element_matches_def schema_defs match_defs)
  have "\<exists>els. JArr [JNum (Fin 1), JNum (Fin 2)] = JArr els \<and>
          list_all (element_matches (SchemaTypes_number JUndefined)) els"
    using m by simp
  with isArrayOfType_predicate
         [of "JArr [JNum (Fin 1), JNum (Fin 2)]" "SchemaTypes_number JUndefined"]
    isArrayOfType_predicate [of "JNum (Fin 0)" "SchemaTypes_number JUndefined"]
  show ?thesis by simp
qed

subsection \<open>The string SchemaType\<close>

text \<open>
  Claim C8: the SchemaType made by the string factory, with any options, returns \<^verbatim>\<open>true\<close>
  on \<^verbatim>\<open>undefined\<close> and on every string and \<^verbatim>\<open>false\<close> on every other value; its
  \<^verbatim>\<open>isRequired\<close> returns \<^verbatim>\<open>true\<close> on the strings and \<^verbatim>\<open>false\<close> on everything else,
  \<^verbatim>\<open>undefined\<close> included.
\<close>

theorem string_schemaType_accepts:
  "call (SchemaTypes_string opts) v = Inr (JBool (v = JUndefined \<or> typeof v = ''string'')) \<and>
   call (isRequired (SchemaTypes_string opts)) v = Inr (JBool (typeof v = ''string''))"
  by (simp add: schema_defs call_def typeof_undefined lookup_def)

subsection \<open>The shape constructor\<close>

lemma isValidShape_returns_null: "isValidShape s = Inr r \<Longrightarrow> r = JNull"
  by (auto simp: isValidShape_def dest: isValidSchema_returns_null split: sum.splits if_splits)

text \<open>
  \<open>isValidShape\<close> returns \<^verbatim>\<open>null\<close> when it does not throw, and \<^verbatim>\<open>!null\<close> is true: whatever
  its argument, \<^verbatim>\<open>SchemaTypes.shape\<close> ends in a throw, its own or that of \<open>isValidShape\<close>.
\<close>

lemma shape_always_throws: "\<exists>e. SchemaTypes_shape s = Inl e"
proof (cases "isValidShape s")
  case (Inl e)
  then show ?thesis by (simp add: SchemaTypes_shape_def)
next
  case (Inr r)
  then have "r = JNull" by (rule isValidShape_returns_null)
  with Inr show ?thesis by (simp add: SchemaTypes_shape_def)
qed

text \<open>
  Claim C1 says that for every valid plain-object schema \<open>s\<close> the constructor \<open>shape(s)\<close>
  does not throw and returns a factory whose SchemaType applies \<open>objectMatchesSchema(s, v)\<close>,
  as for \<^verbatim>\<open>shape({a: string()})\<close>. The code at that very input: \<^verbatim>\<open>{a: string()}\<close> is a
  valid shape (\<open>isValidShape\<close> returns \<^verbatim>\<open>null\<close>), and \<open>shape\<close> throws its
  "Expected a valid shape" error on it.
\<close>

theorem shape_rejects_valid_shape:
  "isValidShape (JObj [(''a'', SchemaTypes_string JUndefined)]) = Inr JNull \<and>
   SchemaTypes_shape (JObj [(''a'', SchemaTypes_string JUndefined)]) =
     Inl (InvalidShape (JObj [(''a'', SchemaTypes_string JUndefined)]))"
proof -
  have v: "isValidShape (JObj [(''a'', SchemaTypes_string JUndefined)]) = Inr JNull"
    by (simp add: isValidShape_def schema_defs match_defs)
  then show ?thesis by (simp add: SchemaTypes_shape_def)
qed

subsection \<open>Two SchemaTypes from one factory\<close>

text \<open>
  The two models of the factory give the same SchemaType: the object the factory returns
  in the heap, looked at when it is returned, is the value of the factory by value.
\<close>

lemma factory_snapshot:
  assumes "validator < length h" and "fn_own (h ! validator) = []"
    and "getOptionalSchemaTypeFactory_at validator typeName opts h = (a, h')"
  shows "snapshot h' a = getOptionalSchemaTypeFactory (fn_code (h ! validator)) typeName opts"
  using assms
  by (auto simp: getOptionalSchemaTypeFactory_at_def getOptionalSchemaTypeFactory_def
        getOptionalValidator_at_def alloc_def SchemaType_at_def set_own_at_def Let_def
        snapshot.simps [of _ "length h"] snapshot.simps [of _ validator]
        SchemaType_def set_own_def fresh_def nth_append nth_list_update)

text \<open>
  Two calls of one factory: the two SchemaTypes are two objects, their \<^verbatim>\<open>isRequired\<close> is
  one object, the validator the factory closed over, and after the second call its
  \<^verbatim>\<open>__proto__\<close> is the one made from the second options.
\<close>

lemma second_construction_rewrites_required:
  assumes "validator < length h"
    and "getOptionalSchemaTypeFactory_at validator typeName opts1 h = (a, h1)"
    and "getOptionalSchemaTypeFactory_at validator typeName opts2 h1 = (b, h2)"
  shows "a \<noteq> b"
    and "map_of (fn_own (h2 ! a)) ''isRequired'' = Some (Ref validator)"
    and "map_of (fn_own (h2 ! b)) ''isRequired'' = Some (Ref validator)"
    and "fn_proto (h1 ! validator) = Some (schemaType_proto typeName (default_object opts1))"
    and "fn_proto (h2 ! validator) = Some (schemaType_proto typeName (default_object opts2))"
    and "fn_proto (h2 ! a) = fn_proto (h1 ! a)"
  using assms
  by (auto simp: getOptionalSchemaTypeFactory_at_def
        getOptionalValidator_at_def alloc_def SchemaType_at_def set_own_at_def Let_def
        nth_append nth_list_update update_conv')

text \<open>
  Claim C4 says that constructing a second SchemaType from a factory leaves the first
  one's type tag, options, sub-schema and \<^verbatim>\<open>isRequired\<close> variant unchanged and that the
  two share no mutable state. The code on \<^verbatim>\<open>a = string({label: 'A'})\<close> followed by
  \<^verbatim>\<open>b = string({label: 'B'})\<close>, from the state in which the modules were loaded: \<open>a\<close> and
  \<open>b\<close> are two objects with one and the same \<^verbatim>\<open>isRequired\<close>, and \<^verbatim>\<open>a.isRequired.label\<close>,
  which was \<^verbatim>\<open>'A'\<close> before \<open>b\<close> was made, is \<^verbatim>\<open>'B'\<close> afterwards.
\<close>

theorem required_variant_is_shared:
  "(case SchemaTypes_string_at (JObj [(''label'', JStr ''A'')]) module_heap of
      (a, h1) \<Rightarrow>
        (case SchemaTypes_string_at (JObj [(''label'', JStr ''B'')]) h1 of
           (b, h2) \<Rightarrow>
             a \<noteq> b \<and>
             get (isRequired (snapshot h1 a)) ''label'' = Inr (JStr ''A'') \<and>
             get (isRequired (snapshot h2 a)) ''label'' = Inr (JStr ''B'') \<and>
             map_of (fn_own (h2 ! a)) ''isRequired'' = map_of (fn_own (h2 ! b)) ''isRequired''))"
  by (simp add: heap_defs snapshot.simps schema_defs lookup_def inherited_def)

end
